theory Spec2Isabelle
  imports Complex_Main "HOL-Library.Word"
begin

unbundle bit_operations_syntax

section \<open>Raw events, patterns and value strategies\<close>

text \<open>
  A raw MIDI message has a status byte and two data bytes; the only other kind of
  message is a system-exclusive byte string. The class \<^verbatim>\<open>EventData\<close> and the
  predicate \<^verbatim>\<open>isEventStandard\<close> live in \<^verbatim>\<open>common.types.event_data\<close>; the
  test \<^verbatim>\<open>data1strategy_test.py\<close> builds events as \<^verbatim>\<open>EventData(0x9F, 0, 0)\<close>.
\<close>

type_synonym byte = "8 word"

datatype EventData =
    EventData (status: byte) (data1: byte) (data2: byte)
  | SysexData (sysex: "byte list")

text \<open>Modelled from the spec: \<^verbatim>\<open>isEventStandard\<close> is imported by
  \<^verbatim>\<open>notes.py\<close> but not defined under src/; a standard event is the
  status/data1/data2 triple.\<close>

fun isEventStandard :: "EventData \<Rightarrow> bool" where
  "isEventStandard (EventData s d1 d2) = True"
| "isEventStandard (SysexData bs) = False"

text \<open>
  \<^verbatim>\<open>IEventPattern\<close> and \<^verbatim>\<open>IValueStrategy\<close> are interfaces whose
  implementations are injected into a control surface. A pattern is its
  \<^verbatim>\<open>matchEvent\<close> predicate; a strategy is its two methods. Floats are modelled
  as reals (no NaN, no rounding); the time stamps of \<^verbatim>\<open>time()\<close> likewise.
\<close>

type_synonym IEventPattern = "EventData \<Rightarrow> bool"

record IValueStrategy =
  getValueFromEvent :: "EventData \<Rightarrow> real \<Rightarrow> real"
  getChannelFromEvent :: "EventData \<Rightarrow> int"

text \<open>Modelled from the spec: \<^verbatim>\<open>BasicPattern\<close> and \<^verbatim>\<open>fromNibbles\<close>
  (\<^verbatim>\<open>control_surfaces.event_patterns\<close>) are not under src/. The spec describes a
  pattern as three per-field matchers, each an exact value, a wildcard (Python's
  \<^verbatim>\<open>...\<close>) or a set of bytes built from nibbles; a standard event matches when
  each of its three bytes satisfies its field matcher.\<close>

datatype ByteMatch = Exact byte | Ellipsis | OneOf "byte list"

fun matchByte :: "ByteMatch \<Rightarrow> byte \<Rightarrow> bool" where
  "matchByte (Exact b) x = (x = b)"
| "matchByte Ellipsis x = True"
| "matchByte (OneOf bs) x = (x \<in> set bs)"

definition all_nibbles :: "byte list" where
  "all_nibbles = map of_nat [0..<16]"

text \<open>Modelled from the spec: \<^verbatim>\<open>fromNibbles(upper, lower)\<close> lists every byte
  whose high nibble is among \<^verbatim>\<open>upper\<close> and whose low nibble is among
  \<^verbatim>\<open>lower\<close>; \<^verbatim>\<open>None\<close> stands for the wildcard \<^verbatim>\<open>...\<close>.\<close>

definition fromNibbles :: "byte list option \<Rightarrow> byte list option \<Rightarrow> ByteMatch" where
  "fromNibbles upper lower =
     (let us = (case upper of None \<Rightarrow> all_nibbles | Some xs \<Rightarrow> xs);
          ls = (case lower of None \<Rightarrow> all_nibbles | Some xs \<Rightarrow> xs)
      in OneOf (concat (map (\<lambda>u. map (\<lambda>l. push_bit 4 u + l) ls) us)))"

fun BasicPattern :: "ByteMatch \<Rightarrow> ByteMatch \<Rightarrow> ByteMatch \<Rightarrow> IEventPattern" where
  "BasicPattern ms m1 m2 (EventData s d1 d2) =
     (matchByte ms s \<and> matchByte m1 d1 \<and> matchByte m2 d2)"
| "BasicPattern ms m1 m2 (SysexData bs) = False"

section \<open>The device context (common/contextmanager.py)\<close>

text \<open>
  Modelled from the spec: the class \<^verbatim>\<open>Settings\<close> (\<^verbatim>\<open>common.settings\<close>) is
  not under src/. The spec gives it as a key-lookup capability
  \<^verbatim>\<open>get(key) \<rightarrow> value\<close>; the only key the modelled code reads holds a float.
\<close>

type_synonym Settings = "string \<Rightarrow> real"

record DeviceContextManager =
  settings :: Settings

text \<open>\<^verbatim>\<open>DeviceContextManager.__init__\<close>: the settings are those that
  \<^verbatim>\<open>Settings()\<close> constructs, a parameter here.\<close>

definition DeviceContextManager_init :: "Settings \<Rightarrow> DeviceContextManager" where
  "DeviceContextManager_init default_settings = \<lparr>settings = default_settings\<rparr>"

datatype exn =
    ContextResetException string
  | Exception string
  | ValueError string
  | IndexError

text \<open>
  The module's global variable \<^verbatim>\<open>_context\<close> (field \<open>g_context\<close>), with the lines that
  \<^verbatim>\<open>logger.log\<close> has been given (category, message); the logger is not under
  src/ and is modelled as appending.
\<close>

record Globals =
  g_context :: "DeviceContextManager option"
  g_log :: "(string \<times> string) list"

text \<open>A call of the module returns normally with a value or raises; either way it
  leaves a state of the globals behind.\<close>

type_synonym 'a call = "Globals \<Rightarrow> (exn + 'a) \<times> Globals"

definition getContext :: "DeviceContextManager option \<Rightarrow> exn + DeviceContextManager" where
  "getContext ctx =
     (case ctx of
        None \<Rightarrow> Inl (Exception ''Context isn't initialised'')
      | Some c \<Rightarrow> Inr c)"

definition resetContext :: "Settings \<Rightarrow> string \<Rightarrow> 'a call" where
  "resetContext default_settings reason g =
     (let g1 = g\<lparr>g_log := g_log g @
                  [(''bootstrap.context.reset'',
                    ''Device context reset with reason: '' @ reason)]\<rparr>;
          g2 = g1\<lparr>g_context := Some (DeviceContextManager_init default_settings)\<rparr>
      in (Inl (ContextResetException reason), g2))"

definition initContext :: "Settings \<Rightarrow> Globals \<Rightarrow> Globals" where
  "initContext default_settings g =
     g\<lparr>g_context := Some (DeviceContextManager_init default_settings)\<rparr>"

text \<open>The decorator: the wrapper runs the function, drops its return value, and
  swallows a \<^verbatim>\<open>ContextResetException\<close>; any other exception passes through.\<close>

definition catchContextResetException :: "('x \<Rightarrow> 'a call) \<Rightarrow> 'x \<Rightarrow> unit call" where
  "catchContextResetException func args g =
     (case func args g of
        (Inr v, g') \<Rightarrow> (Inr (), g')
      | (Inl (ContextResetException r), g') \<Rightarrow> (Inr (), g')
      | (Inl e, g') \<Rightarrow> (Inl e, g'))"

text \<open>Sequencing of two statements of a driver body: when the first raises, the
  second is not run.\<close>

definition and_then :: "'a call \<Rightarrow> ('a \<Rightarrow> 'b call) \<Rightarrow> 'b call" where
  "and_then m k g =
     (case m g of
        (Inl e, g') \<Rightarrow> (Inl e, g')
      | (Inr v, g') \<Rightarrow> k v g')"

section \<open>Control surfaces (control_surfaces/controls/control_surface.py)\<close>

text \<open>Modelled from the spec: the class \<^verbatim>\<open>Color\<close> (\<^verbatim>\<open>common.types\<close>) is not
  under src/; the code only constructs the default colour and compares colours, so
  a colour is its red, green and blue components and \<^verbatim>\<open>Color()\<close> is black.\<close>

type_synonym Color = "nat \<times> nat \<times> nat"

definition Color_init :: Color where
  "Color_init = (0, 0, 0)"

datatype Manager = DummyAnnotationManager | DummyColorManager | DummyValueManager

text \<open>
  The instance attributes of a \<^verbatim>\<open>ControlSurface\<close>; field \<open>cs_x\<close> is the
  attribute \<^verbatim>\<open>_x\<close>. The static method \<^verbatim>\<open>isPress\<close>, which control classes
  override and \<^verbatim>\<open>match\<close> calls through \<^verbatim>\<open>self\<close>, is carried by the
  instance as \<open>cs_isPress\<close>.
\<close>

record ControlSurface =
  cs_pattern :: IEventPattern
  cs_color :: Color
  cs_annotation :: string
  cs_value :: real
  cs_value_strategy :: IValueStrategy
  cs_coord :: "int \<times> int"
  cs_needs_update :: bool
  cs_got_update :: bool
  cs_color_changed :: bool
  cs_annotation_changed :: bool
  cs_value_changed :: bool
  cs_annotation_manager :: "Manager option"
  cs_color_manager :: "Manager option"
  cs_value_manager :: "Manager option"
  cs_press :: real
  cs_tweak :: real
  cs_isPress :: "real \<Rightarrow> bool"

text \<open>\<^verbatim>\<open>ControlSurface.isPress\<close> of the base class.\<close>

definition isPress :: "real \<Rightarrow> bool" where
  "isPress v = False"

text \<open>
  \<^verbatim>\<open>ControlSurface.__init__\<close>. The pattern and the strategy are given (the
  defaults \<^verbatim>\<open>NullPattern()\<close> and \<^verbatim>\<open>NullEventStrategy()\<close> are classes outside
  src/); the first argument is the \<^verbatim>\<open>isPress\<close> of the class being
  instantiated. A manager argument that is \<^verbatim>\<open>None\<close> is stored as it is, any
  other is replaced by the dummy manager, as the source does.
\<close>

definition ControlSurface_init ::
  "(real \<Rightarrow> bool) \<Rightarrow> IEventPattern \<Rightarrow> IValueStrategy \<Rightarrow> int \<times> int \<Rightarrow>
   Manager option \<Rightarrow> Manager option \<Rightarrow> Manager option \<Rightarrow> ControlSurface" where
  "ControlSurface_init is_press event_pattern value_strategy coordinate
       annotation_manager color_manager value_manager =
     \<lparr>cs_pattern = event_pattern,
      cs_color = Color_init,
      cs_annotation = '''',
      cs_value = 0,
      cs_value_strategy = value_strategy,
      cs_coord = coordinate,
      cs_needs_update = False,
      cs_got_update = False,
      cs_color_changed = True,
      cs_annotation_changed = True,
      cs_value_changed = True,
      cs_annotation_manager =
        (if annotation_manager = None then annotation_manager
         else Some DummyAnnotationManager),
      cs_color_manager =
        (if color_manager = None then color_manager else Some DummyColorManager),
      cs_value_manager =
        (if value_manager = None then value_manager else Some DummyValueManager),
      cs_press = 0,
      cs_tweak = 0,
      cs_isPress = is_press\<rparr>"

text \<open>
  A \<^verbatim>\<open>ControlEvent(self, self.value, channel, double_press)\<close>. The reference to
  the control is modelled by the control's state when \<^verbatim>\<open>match\<close> returns.
\<close>

record ControlEvent =
  ev_control :: ControlSurface
  ev_value :: real
  ev_channel :: int
  ev_double_press :: bool

text \<open>
  \<^verbatim>\<open>ControlSurface.match\<close>. The arguments are the global \<^verbatim>\<open>_context\<close> that
  \<^verbatim>\<open>getContext()\<close> reads, the reading \<open>t\<close> of \<^verbatim>\<open>time()\<close>, the surface
  and the event. When \<^verbatim>\<open>getContext()\<close> raises, the assignments made before
  it stay.
\<close>

definition match ::
  "DeviceContextManager option \<Rightarrow> real \<Rightarrow> ControlSurface \<Rightarrow> EventData \<Rightarrow>
   (exn + ControlEvent option) \<times> ControlSurface" where
  "match ctx t self event =
     (if cs_pattern self event then
        let self1 = self\<lparr>cs_value :=
                      getValueFromEvent (cs_value_strategy self) event (cs_value self)\<rparr>;
            channel = getChannelFromEvent (cs_value_strategy self1) event;
            self2 = self1\<lparr>cs_needs_update := True\<rparr>;
            self3 = self2\<lparr>cs_got_update := False\<rparr>;
            self4 = self3\<lparr>cs_tweak := t\<rparr>
        in if cs_isPress self4 (cs_value self4) then
             (case getContext ctx of
                Inl e \<Rightarrow> (Inl e, self4)
              | Inr c \<Rightarrow>
                  let double_press =
                        (t - cs_press self4 \<le> settings c ''controls.double_press_time'');
                      self5 = self4\<lparr>cs_press := t\<rparr>
                  in (Inr (Some \<lparr>ev_control = self5, ev_value = cs_value self5,
                                 ev_channel = channel, ev_double_press = double_press\<rparr>),
                      self5))
           else
             (Inr (Some \<lparr>ev_control = self4, ev_value = cs_value self4,
                          ev_channel = channel, ev_double_press = False\<rparr>),
              self4)
      else (Inr None, self))"

text \<open>The property setters. Only the setter of \<^verbatim>\<open>value\<close> can raise; it does
  so before any assignment.\<close>

definition set_color :: "Color \<Rightarrow> ControlSurface \<Rightarrow> ControlSurface" where
  "set_color c self =
     (let self1 = self\<lparr>cs_got_update := True\<rparr>
      in if cs_color self1 \<noteq> c
         then self1\<lparr>cs_color := c, cs_color_changed := True\<rparr>
         else self1)"


definition set_value :: "real \<Rightarrow> ControlSurface \<Rightarrow> (exn + unit) \<times> ControlSurface" where
  "set_value val self =
     (if \<not> (0 \<le> val \<and> val \<le> 1) then
        (Inl (ValueError ''Value for control must be between 0 and 1''), self)
      else if cs_value self \<noteq> val then
        (Inr (), self\<lparr>cs_value := val, cs_needs_update := True,
                      cs_got_update := False, cs_value_changed := True\<rparr>)
      else (Inr (), self))"

text \<open>
  The methods that \<^verbatim>\<open>doTick\<close> calls on the surface, with their arguments.
  In \<^verbatim>\<open>ControlSurface\<close> their bodies are empty, so a call changes nothing
  of the surface; what is left of it is that it was made.
\<close>

datatype Callback =
    is_onColorChange: onColorChange Color
  | is_onAnnotationChange: onAnnotationChange string
  | is_onValueChange: onValueChange real
  | is_tick: tick

definition doTick :: "bool \<Rightarrow> ControlSurface \<Rightarrow> Callback list \<times> ControlSurface" where
  "doTick thorough self =
     (let calls1 = (if thorough \<or> cs_color_changed self
                    then [onColorChange (cs_color self)] else []);
          calls2 = (if thorough \<or> cs_annotation_changed self
                    then [onAnnotationChange (cs_annotation self)] else []);
          calls3 = (if thorough \<or> cs_value_changed self
                    then [onValueChange (cs_value self)] else []);
          calls = calls1 @ calls2 @ calls3 @ [tick]
      in if cs_got_update self
         then (calls, self\<lparr>cs_needs_update := False, cs_got_update := False\<rparr>)
         else (calls, self))"




section \<open>The note matcher (devices/control_generators/notes.py)\<close>

record NoteMatcher =
  nm_notes :: "ControlSurface list"
  nm_note_pattern :: IEventPattern

text \<open>\<^verbatim>\<open>NoteMatcher.__init__\<close>; the constructor of the class \<^verbatim>\<open>Note\<close>
  (outside src/) is the parameter \<open>Note\<close>.\<close>

definition NoteMatcher_init :: "(nat \<Rightarrow> ControlSurface) \<Rightarrow> NoteMatcher" where
  "NoteMatcher_init Note =
     \<lparr>nm_notes = map Note [0..<128],
      nm_note_pattern = BasicPattern (fromNibbles (Some [8, 9]) None) Ellipsis Ellipsis\<rparr>"

text \<open>
  \<^verbatim>\<open>NoteMatcher.matchEvent\<close>. Besides the result and the matcher it returns the
  indices of the pooled surfaces whose \<^verbatim>\<open>match\<close> it has called, in order.
  A \<^verbatim>\<open>data1\<close> beyond the pool raises \<^verbatim>\<open>IndexError\<close>.
\<close>

definition matchEvent ::
  "DeviceContextManager option \<Rightarrow> real \<Rightarrow> NoteMatcher \<Rightarrow> EventData \<Rightarrow>
   (exn + ControlEvent option) \<times> nat list \<times> NoteMatcher" where
  "matchEvent ctx t self event =
     (if isEventStandard event \<and> nm_note_pattern self event then
        let note = unat (data1 event)
        in if note < length (nm_notes self) then
             let (r, s') = match ctx t (nm_notes self ! note) event
             in (r, [note], self\<lparr>nm_notes := (nm_notes self)[note := s']\<rparr>)
           else (Inl IndexError, [], self)
      else (Inr None, [], self))"

section \<open>Reading results, and concrete objects\<close>

text \<open>The double-press flag of the event that a call of \<^verbatim>\<open>match\<close> returned,
  if it returned one.\<close>

definition reported_double_press ::
  "(exn + ControlEvent option) \<times> ControlSurface \<Rightarrow> bool option" where
  "reported_double_press r =
     (case fst r of
        Inr (Some ev) \<Rightarrow> Some (ev_double_press ev)
      | Inr None \<Rightarrow> None
      | Inl e \<Rightarrow> None)"

text \<open>
  Objects on which the definitions are evaluated: a strategy reading the value from
  \<^verbatim>\<open>data2\<close> and the channel from the low nibble of the status byte, settings
  with a double-press time of 0.3 seconds, a button whose \<^verbatim>\<open>isPress\<close> is always
  true and a knob with the \<^verbatim>\<open>isPress\<close> of the base class, both bound to
  controller 0x74 on channel 16.
\<close>

definition example_strategy :: IValueStrategy where
  "example_strategy =
     \<lparr>getValueFromEvent = (\<lambda>e prev. real (unat (data2 e)) / 127),
      getChannelFromEvent = (\<lambda>e. int (unat (status e AND 0xF)))\<rparr>"

definition example_settings :: Settings where
  "example_settings key = (if key = ''controls.double_press_time'' then 3 / 10 else 0)"

definition example_button :: ControlSurface where
  "example_button =
     ControlSurface_init (\<lambda>v. True) (BasicPattern (Exact 0xBF) (Exact 0x74) Ellipsis)
       example_strategy (0, 0) None None None"

definition example_knob :: ControlSurface where
  "example_knob =
     ControlSurface_init isPress (BasicPattern (Exact 0xBF) (Exact 0x74) Ellipsis)
       example_strategy (0, 0) None None None"

definition example_note :: "nat \<Rightarrow> ControlSurface" where
  "example_note i =
     ControlSurface_init isPress
       (BasicPattern (fromNibbles (Some [8, 9]) None) (Exact (of_nat i)) Ellipsis)
       example_strategy (0, int i) None None None"

section \<open>What the operations do to a surface\<close>

lemma doTick_state:
  "snd (doTick thorough s) =
     (if cs_got_update s then s\<lparr>cs_needs_update := False, cs_got_update := False\<rparr> else s)"
  by (simp add: doTick_def Let_def)

lemma doTick_calls:
  "fst (doTick thorough s) =
     (if thorough \<or> cs_color_changed s then [onColorChange (cs_color s)] else []) @
     (if thorough \<or> cs_annotation_changed s
      then [onAnnotationChange (cs_annotation s)] else []) @
     (if thorough \<or> cs_value_changed s then [onValueChange (cs_value s)] else []) @ [tick]"
  by (simp add: doTick_def Let_def)

lemma match_miss: "\<not> cs_pattern s e \<Longrightarrow> match ctx t s e = (Inr None, s)"
  by (simp add: match_def)

lemma match_hit_state:
  "cs_pattern s e \<Longrightarrow>
   snd (match ctx t s e) =
     (let s4 = s\<lparr>cs_value := getValueFromEvent (cs_value_strategy s) e (cs_value s),
                 cs_needs_update := True, cs_got_update := False, cs_tweak := t\<rparr>
      in if cs_isPress s (cs_value s4) \<and> ctx \<noteq> None then s4\<lparr>cs_press := t\<rparr> else s4)"
  by (auto simp: match_def Let_def getContext_def split: option.splits)

lemma match_hit_press:
  "cs_pattern s e \<Longrightarrow>
   cs_isPress s (getValueFromEvent (cs_value_strategy s) e (cs_value s)) \<Longrightarrow>
   reported_double_press (match (Some c) t s e) =
     Some (t - cs_press s \<le> settings c ''controls.double_press_time'')"
  by (simp add: match_def Let_def getContext_def reported_double_press_def)






section \<open>The coarse note pattern\<close>

text \<open>The bytes that \<^verbatim>\<open>fromNibbles((8, 9), ...)\<close> lists are those whose high nibble
  is 8 or 9.\<close>

lemma note_bytes: "fromNibbles (Some [8, 9]) None = OneOf (map of_nat [128..<160])"
  by (simp add: fromNibbles_def all_nibbles_def upt_rec)

lemma high_nibble:
  "(s \<in> set (map of_nat [128..<160] :: byte list)) = (drop_bit 4 s = 8 \<or> drop_bit 4 s = 9)"
proof -
  have img: "set (map of_nat [128..<160] :: byte list) = of_nat ` {128..<160}"
    by (simp only: set_map set_upt)
  have a: "(s \<in> (of_nat ` {128..<160} :: byte set)) = (128 \<le> unat s \<and> unat s < 160)"
  proof
    assume "s \<in> (of_nat ` {128..<160} :: byte set)"
    then obtain k where k: "s = of_nat k" "128 \<le> k" "k < 160" by auto
    then have "unat s = k" by (simp add: unat_of_nat)
    with k show "128 \<le> unat s \<and> unat s < 160" by simp
  next
    assume h: "128 \<le> unat s \<and> unat s < 160"
    have "s = of_nat (unat s)" by simp
    moreover from h have "unat s \<in> {128..<160}" by simp
    ultimately show "s \<in> (of_nat ` {128..<160} :: byte set)" by (rule image_eqI)
  qed
  have u: "unat (drop_bit 4 s) = unat s div 16"
    by (simp add: drop_bit_eq_div unat_div)
  have b: "(drop_bit 4 s = 8) = (unat (drop_bit 4 s) = 8)"
    by (simp only: word_unat_eq_iff) simp
  have c: "(drop_bit 4 s = 9) = (unat (drop_bit 4 s) = 9)"
    by (simp only: word_unat_eq_iff) simp
  have d: "(128 \<le> unat s \<and> unat s < 160) = (unat s div 16 = 8 \<or> unat s div 16 = 9)"
    by arith
  show ?thesis unfolding img a b c u d ..
qed

lemma note_pattern_init:
  "nm_note_pattern (NoteMatcher_init Note) (EventData s d1 d2) =
     (drop_bit 4 s = 8 \<or> drop_bit 4 s = 9)"
  by (simp only: NoteMatcher_init_def NoteMatcher.simps BasicPattern.simps matchByte.simps
        note_bytes high_nibble simp_thms)

lemma pool_init: "length (nm_notes (NoteMatcher_init Note)) = 128"
  by (simp add: NoteMatcher_init_def)

section \<open>The claims\<close>

text \<open>
  C1. The claim: a dirty flag set by an unequal assignment is cleared by the per-frame
  tick once the change callback has been delivered, and by nothing else. In the code
  \<^verbatim>\<open>doTick\<close> delivers the callback and leaves the flag set: after the colour of a
  fresh knob is set to red, a first non-thorough tick calls \<^verbatim>\<open>onColorChange\<close>
  with red and the flag is still set, so a second non-thorough tick calls it again.
\<close>

theorem doTick_leaves_dirty_flag_set:
  "(let s1 = set_color (255, 0, 0) example_knob;
        (calls2, s2) = doTick False s1;
        (calls3, s3) = doTick False s2
    in cs_color s1 \<noteq> cs_color example_knob
       \<and> onColorChange (255, 0, 0) \<in> set calls2
       \<and> cs_color_changed s2
       \<and> onColorChange (255, 0, 0) \<in> set calls3
       \<and> cs_color_changed s3)"
  by (simp add: set_color_def doTick_def example_knob_def ControlSurface_init_def
                Color_init_def Let_def)



text \<open>
  C3. \<^verbatim>\<open>resetContext\<close> stores a freshly constructed context in the global and
  then raises \<^verbatim>\<open>ContextResetException\<close>, whatever the context was before. A
  driver that reaches the reset and is wrapped by \<^verbatim>\<open>catchContextResetException\<close>
  returns normally; the rest of its body is not run, and the globals it leaves are
  those of the reset, so the next \<^verbatim>\<open>getContext()\<close> yields the fresh context.
\<close>

theorem reset_replaces_context_and_is_absorbed:
  "fst (resetContext d reason g) = Inl (ContextResetException reason)
   \<and> g_context (snd (resetContext d reason g)) = Some (DeviceContextManager_init d)
   \<and> fst (catchContextResetException
            (\<lambda>a. and_then (resetContext d reason) (rest a)) args g) = Inr ()
   \<and> snd (catchContextResetException
            (\<lambda>a. and_then (resetContext d reason) (rest a)) args g)
       = snd (resetContext d reason g)
   \<and> getContext (g_context (snd (catchContextResetException
         (\<lambda>a. and_then (resetContext d reason) (rest a)) args g)))
       = Inr (DeviceContextManager_init d)"
  by (simp add: resetContext_def catchContextResetException_def and_then_def
                getContext_def Let_def)

text \<open>
  C9. A freshly constructed surface has its three dirty flags set, and a first
  non-thorough tick makes all three change callbacks, with the initial colour,
  annotation and value.
\<close>

theorem fresh_surface_is_all_dirty:
  "cs_color_changed (ControlSurface_init ip p vs co am cm vm)
   \<and> cs_annotation_changed (ControlSurface_init ip p vs co am cm vm)
   \<and> cs_value_changed (ControlSurface_init ip p vs co am cm vm)
   \<and> fst (doTick False (ControlSurface_init ip p vs co am cm vm)) =
       [onColorChange Color_init, onAnnotationChange '''', onValueChange 0, tick]"
  by (simp add: ControlSurface_init_def doTick_def Let_def)

text \<open>
  C4. A thorough tick makes the three change callbacks, then \<^verbatim>\<open>tick\<close>; a
  non-thorough tick makes exactly the callbacks whose dirty flag is set, each once and
  with the current attribute. Either tick clears \<^verbatim>\<open>_needs_update\<close> and
  \<^verbatim>\<open>_got_update\<close> when \<^verbatim>\<open>_got_update\<close> is set, and otherwise leaves the
  surface as it is.
\<close>

theorem doTick_callbacks_and_acknowledgement:
  "fst (doTick True s) =
     [onColorChange (cs_color s), onAnnotationChange (cs_annotation s),
      onValueChange (cs_value s), tick]
   \<and> filter is_onColorChange (fst (doTick False s)) =
       (if cs_color_changed s then [onColorChange (cs_color s)] else [])
   \<and> filter is_onAnnotationChange (fst (doTick False s)) =
       (if cs_annotation_changed s then [onAnnotationChange (cs_annotation s)] else [])
   \<and> filter is_onValueChange (fst (doTick False s)) =
       (if cs_value_changed s then [onValueChange (cs_value s)] else [])
   \<and> (cs_got_update s \<longrightarrow>
         snd (doTick thorough s) = s\<lparr>cs_needs_update := False, cs_got_update := False\<rparr>)
   \<and> (\<not> cs_got_update s \<longrightarrow> snd (doTick thorough s) = s)"
  by (simp add: doTick_calls doTick_state)

theorem doTick_callbacks_and_acknowledgement_witness:
  "cs_got_update (set_color (255, 0, 0) example_knob)
   \<and> \<not> cs_got_update example_knob
   \<and> snd (doTick False (set_color (255, 0, 0) example_knob)) =
       (set_color (255, 0, 0) example_knob)\<lparr>cs_needs_update := False, cs_got_update := False\<rparr>
   \<and> snd (doTick False example_knob) = example_knob"
  using doTick_callbacks_and_acknowledgement [of "set_color (255, 0, 0) example_knob" False]
        doTick_callbacks_and_acknowledgement [of example_knob False]
  by (simp add: set_color_def example_knob_def ControlSurface_init_def Color_init_def)

text \<open>
  C5. With a double-press time of 0.3 and a surface whose \<^verbatim>\<open>isPress\<close> is always
  true, a matching press at time 0.0 followed by one at time 0.2 reports a double
  press on the second; followed by one at time 0.4 it reports none.
\<close>

theorem double_press_within_threshold:
  assumes "\<forall>v. cs_isPress s v"
      and "cs_pattern s e1" and "cs_pattern s e2"
      and "settings c ''controls.double_press_time'' = 3 / 10"
  shows "reported_double_press
           (match (Some c) (2 / 10) (snd (match (Some c) 0 s e1)) e2) = Some True
       \<and> reported_double_press
           (match (Some c) (4 / 10) (snd (match (Some c) 0 s e1)) e2) = Some False"
proof -
  let ?s1 = "snd (match (Some c) 0 s e1)"
  have s1: "cs_press ?s1 = 0" "cs_pattern ?s1 e2" "\<forall>v. cs_isPress ?s1 v"
    using assms by (simp_all add: match_hit_state Let_def)
  show ?thesis using s1 assms(4) by (simp add: match_hit_press)
qed

theorem double_press_within_threshold_witness:
  "(\<forall>v. cs_isPress example_button v)
   \<and> cs_pattern example_button (EventData 0xBF 0x74 127)
   \<and> settings (DeviceContextManager_init example_settings) ''controls.double_press_time''
       = 3 / 10
   \<and> reported_double_press
        (match (Some (DeviceContextManager_init example_settings)) (2 / 10)
           (snd (match (Some (DeviceContextManager_init example_settings)) 0
                   example_button (EventData 0xBF 0x74 127)))
           (EventData 0xBF 0x74 127)) = Some True
   \<and> reported_double_press
        (match (Some (DeviceContextManager_init example_settings)) (4 / 10)
           (snd (match (Some (DeviceContextManager_init example_settings)) 0
                   example_button (EventData 0xBF 0x74 127)))
           (EventData 0xBF 0x74 127)) = Some False"
proof -
  have a: "\<forall>v. cs_isPress example_button v"
    by (simp add: example_button_def ControlSurface_init_def)
  have b: "cs_pattern example_button (EventData 0xBF 0x74 127)"
    by (simp add: example_button_def ControlSurface_init_def)
  have c: "settings (DeviceContextManager_init example_settings)
             ''controls.double_press_time'' = 3 / 10"
    by (simp add: DeviceContextManager_init_def example_settings_def)
  show ?thesis
    using a b c double_press_within_threshold [OF a b b c] by simp
qed

text \<open>
  C6. \<^verbatim>\<open>NoteMatcher.matchEvent\<close> calls \<^verbatim>\<open>match\<close> on no pooled surface or on
  exactly the one at index \<^verbatim>\<open>data1\<close>. For a standard event that the coarse
  pattern matches and whose \<^verbatim>\<open>data1\<close> lies within the pool, it does call
  \<^verbatim>\<open>match\<close> on the surface at index \<^verbatim>\<open>data1\<close>, on that one only, returns
  what that call returns and stores the surface that call leaves at that index; a
  \<^verbatim>\<open>data1\<close> beyond the pool raises \<^verbatim>\<open>IndexError\<close> without any call. When
  the event is not standard or the coarse pattern does not match, the result is
  \<^verbatim>\<open>None\<close>, no call is made and the matcher is unchanged. The matcher that
  \<^verbatim>\<open>__init__\<close> builds has 128 surfaces and its coarse pattern matches a standard
  event exactly when the high nibble of the status byte is 8 or 9, so it routes every
  such event with a note number below 128 to the surface built for that number.
\<close>

theorem matchEvent_routes_by_data1:
  "(case matchEvent ctx t m e of
      (r, invoked, m') \<Rightarrow>
        (invoked = [] \<or> invoked = [unat (data1 e)])
        \<and> (invoked \<noteq> [] \<longrightarrow>
              isEventStandard e \<and> nm_note_pattern m e
              \<and> unat (data1 e) < length (nm_notes m)
              \<and> (r, nm_notes m' ! unat (data1 e)) =
                  match ctx t (nm_notes m ! unat (data1 e)) e)
        \<and> (\<not> nm_note_pattern m e \<longrightarrow> r = Inr None \<and> invoked = [] \<and> m' = m)
        \<and> (\<forall>i. i \<noteq> unat (data1 e) \<longrightarrow> nm_notes m' ! i = nm_notes m ! i))
   \<and> (isEventStandard e \<and> nm_note_pattern m e \<and> unat (data1 e) < length (nm_notes m) \<longrightarrow>
        matchEvent ctx t m e =
          (fst (match ctx t (nm_notes m ! unat (data1 e)) e),
           [unat (data1 e)],
           m\<lparr>nm_notes := (nm_notes m)
                 [unat (data1 e) := snd (match ctx t (nm_notes m ! unat (data1 e)) e)]\<rparr>))
   \<and> (isEventStandard e \<and> nm_note_pattern m e
        \<and> length (nm_notes m) \<le> unat (data1 e) \<longrightarrow>
        matchEvent ctx t m e = (Inl IndexError, [], m))
   \<and> (\<not> (isEventStandard e \<and> nm_note_pattern m e) \<longrightarrow>
        matchEvent ctx t m e = (Inr None, [], m))
   \<and> length (nm_notes (NoteMatcher_init Note)) = 128
   \<and> nm_note_pattern (NoteMatcher_init Note) (EventData st d1 d2) =
       (drop_bit 4 st = 8 \<or> drop_bit 4 st = 9)
   \<and> ((drop_bit 4 st = 8 \<or> drop_bit 4 st = 9) \<and> unat d1 < 128 \<longrightarrow>
        fst (matchEvent ctx t (NoteMatcher_init Note) (EventData st d1 d2)) =
          fst (match ctx t (Note (unat d1)) (EventData st d1 d2))
        \<and> fst (snd (matchEvent ctx t (NoteMatcher_init Note) (EventData st d1 d2))) =
          [unat d1])"
proof -
  have trace: "(case matchEvent ctx t m e of
      (r, invoked, m') \<Rightarrow>
        (invoked = [] \<or> invoked = [unat (data1 e)])
        \<and> (invoked \<noteq> [] \<longrightarrow>
              isEventStandard e \<and> nm_note_pattern m e
              \<and> unat (data1 e) < length (nm_notes m)
              \<and> (r, nm_notes m' ! unat (data1 e)) =
                  match ctx t (nm_notes m ! unat (data1 e)) e)
        \<and> (\<not> nm_note_pattern m e \<longrightarrow> r = Inr None \<and> invoked = [] \<and> m' = m)
        \<and> (\<forall>i. i \<noteq> unat (data1 e) \<longrightarrow> nm_notes m' ! i = nm_notes m ! i))"
    by (auto simp: matchEvent_def Let_def split: prod.splits)
  have hit: "isEventStandard e \<and> nm_note_pattern m e
        \<and> unat (data1 e) < length (nm_notes m) \<longrightarrow>
        matchEvent ctx t m e =
          (fst (match ctx t (nm_notes m ! unat (data1 e)) e),
           [unat (data1 e)],
           m\<lparr>nm_notes := (nm_notes m)
                 [unat (data1 e) := snd (match ctx t (nm_notes m ! unat (data1 e)) e)]\<rparr>)"
    by (simp add: matchEvent_def Let_def case_prod_beta)
  have beyond: "isEventStandard e \<and> nm_note_pattern m e
        \<and> length (nm_notes m) \<le> unat (data1 e) \<longrightarrow>
        matchEvent ctx t m e = (Inl IndexError, [], m)"
    by (simp add: matchEvent_def Let_def)
  have miss: "\<not> (isEventStandard e \<and> nm_note_pattern m e) \<longrightarrow>
        matchEvent ctx t m e = (Inr None, [], m)"
    by (simp add: matchEvent_def)
  have built: "(drop_bit 4 st = 8 \<or> drop_bit 4 st = 9) \<and> unat d1 < 128 \<longrightarrow>
        fst (matchEvent ctx t (NoteMatcher_init Note) (EventData st d1 d2)) =
          fst (match ctx t (Note (unat d1)) (EventData st d1 d2))
        \<and> fst (snd (matchEvent ctx t (NoteMatcher_init Note) (EventData st d1 d2))) =
          [unat d1]"
  proof
    assume h: "(drop_bit 4 st = 8 \<or> drop_bit 4 st = 9) \<and> unat d1 < 128"
    then have p: "nm_note_pattern (NoteMatcher_init Note) (EventData st d1 d2)"
      by (simp only: note_pattern_init)
    have n: "nm_notes (NoteMatcher_init Note) ! unat d1 = Note (unat d1)"
      using h by (simp add: NoteMatcher_init_def)
    show "fst (matchEvent ctx t (NoteMatcher_init Note) (EventData st d1 d2)) =
          fst (match ctx t (Note (unat d1)) (EventData st d1 d2))
        \<and> fst (snd (matchEvent ctx t (NoteMatcher_init Note) (EventData st d1 d2))) =
          [unat d1]"
      using h p n by (simp add: matchEvent_def pool_init Let_def case_prod_beta)
  qed
  from trace hit beyond miss built pool_init [of Note] note_pattern_init [of Note st d1 d2]
  show ?thesis by blast
qed

theorem matchEvent_routes_by_data1_witness:
  "isEventStandard (EventData 0x90 60 100)
   \<and> nm_note_pattern (NoteMatcher_init example_note) (EventData 0x90 60 100)
   \<and> unat (data1 (EventData 0x90 60 100)) < length (nm_notes (NoteMatcher_init example_note))
   \<and> fst (snd (matchEvent (Some (DeviceContextManager_init example_settings)) 1
                  (NoteMatcher_init example_note) (EventData 0x90 60 100))) = [60]
   \<and> fst (matchEvent (Some (DeviceContextManager_init example_settings)) 1
             (NoteMatcher_init example_note) (EventData 0x90 60 100))
       = fst (match (Some (DeviceContextManager_init example_settings)) 1
                (example_note 60) (EventData 0x90 60 100))
   \<and> nm_notes (snd (snd (matchEvent (Some (DeviceContextManager_init example_settings)) 1
                             (NoteMatcher_init example_note) (EventData 0x90 60 100)))) ! 60
       = snd (match (Some (DeviceContextManager_init example_settings)) 1
                (example_note 60) (EventData 0x90 60 100))
   \<and> nm_notes (snd (snd (matchEvent (Some (DeviceContextManager_init example_settings)) 1
                             (NoteMatcher_init example_note) (EventData 0x90 60 100)))) ! 61
       = nm_notes (NoteMatcher_init example_note) ! 61
   \<and> \<not> nm_note_pattern (NoteMatcher_init example_note) (EventData 0xB0 60 100)
   \<and> matchEvent (Some (DeviceContextManager_init example_settings)) 1
        (NoteMatcher_init example_note) (EventData 0xB0 60 100)
       = (Inr None, [], NoteMatcher_init example_note)"
proof -
  let ?M = "NoteMatcher_init example_note"
  let ?C = "Some (DeviceContextManager_init example_settings)"
  let ?E = "EventData 0x90 60 100"
  let ?E' = "EventData 0xB0 60 100"
  have std: "isEventStandard ?E" by simp
  have hit: "nm_note_pattern ?M ?E"
    by (simp add: note_pattern_init drop_bit_eq_div)
  have miss: "\<not> nm_note_pattern ?M ?E'"
    by (simp add: note_pattern_init drop_bit_eq_div)
  have d: "unat (data1 ?E) = 60"
    by simp
  have len: "unat (data1 ?E) < length (nm_notes ?M)"
    by (simp add: pool_init)
  have n60: "nm_notes ?M ! 60 = example_note 60"
    by (simp add: NoteMatcher_init_def)
  from matchEvent_routes_by_data1 [where ctx = "?C" and t = 1 and m = "?M" and e = "?E"]
       std hit len
  have eq: "matchEvent ?C 1 ?M ?E =
          (fst (match ?C 1 (nm_notes ?M ! unat (data1 ?E)) ?E),
           [unat (data1 ?E)],
           ?M\<lparr>nm_notes := (nm_notes ?M)
                 [unat (data1 ?E) := snd (match ?C 1 (nm_notes ?M ! unat (data1 ?E)) ?E)]\<rparr>)"
    by blast
  have a: "fst (snd (matchEvent ?C 1 ?M ?E)) = [60]"
    unfolding eq by simp
  have b: "fst (matchEvent ?C 1 ?M ?E) = fst (match ?C 1 (example_note 60) ?E)"
    unfolding eq d n60 by simp
  have c: "nm_notes (snd (snd (matchEvent ?C 1 ?M ?E))) ! 60
             = snd (match ?C 1 (example_note 60) ?E)"
    unfolding eq d n60 by (simp add: pool_init)
  have c': "nm_notes (snd (snd (matchEvent ?C 1 ?M ?E))) ! 61 = nm_notes ?M ! 61"
    unfolding eq d by simp
  from matchEvent_routes_by_data1 [where ctx = "?C" and t = 1 and m = "?M" and e = "?E'"]
       miss
  have n: "matchEvent ?C 1 ?M ?E' = (Inr None, [], ?M)"
    by blast
  from std hit len a b c c' miss n show ?thesis by blast
qed

text \<open>
  C7. Assigning the \<^verbatim>\<open>value\<close> property a number below 0 or above 1 raises
  \<^verbatim>\<open>ValueError\<close> and leaves the whole surface as it was; assigning a number in
  the closed interval from 0 to 1 returns normally, and the property then reads that
  number.
\<close>

theorem set_value_validates_range:
  "(v < 0 \<or> 1 < v \<longrightarrow>
      fst (set_value v s) = Inl (ValueError ''Value for control must be between 0 and 1'')
      \<and> snd (set_value v s) = s)
   \<and> (0 \<le> v \<and> v \<le> 1 \<longrightarrow>
      fst (set_value v s) = Inr () \<and> cs_value (snd (set_value v s)) = v)"
  by (auto simp: set_value_def)

theorem set_value_validates_range_witness:
  "(1::real) < 3 / 2
   \<and> fst (set_value (3 / 2) example_knob) =
       Inl (ValueError ''Value for control must be between 0 and 1'')
   \<and> snd (set_value (3 / 2) example_knob) = example_knob
   \<and> (- 1 / 10 :: real) < 0
   \<and> snd (set_value (- 1 / 10) example_knob) = example_knob
   \<and> (0::real) \<le> 1 / 2 \<and> (1 / 2 :: real) \<le> 1
   \<and> fst (set_value (1 / 2) example_knob) = Inr ()
   \<and> cs_value (snd (set_value (1 / 2) example_knob)) = 1 / 2"
  using set_value_validates_range [of "3 / 2" example_knob]
        set_value_validates_range [of "- 1 / 10" example_knob]
        set_value_validates_range [of "1 / 2" example_knob]
  by simp

text \<open>
  C8. The claim: \<^verbatim>\<open>match\<close> changes the surface if and only if the pattern
  matches. The "if" half fails: a knob that has just matched an event, given the same
  event again at the same clock reading, matches and is left equal to what it was.
\<close>

theorem match_hit_can_leave_surface_equal:
  "(let e = EventData 0xBF 0x74 127;
        s = snd (match None 1 example_knob e)
    in cs_pattern s e \<and> snd (match None 1 s e) = s)"
  by (simp add: match_def example_knob_def ControlSurface_init_def example_strategy_def
                isPress_def Let_def)

text \<open>
  C8, as amended. When the pattern does not match, \<^verbatim>\<open>match\<close> returns
  \<^verbatim>\<open>None\<close> and the surface is unchanged in every field, so \<^verbatim>\<open>match\<close>
  changes the surface only if the pattern matches. When the pattern matches it does
  not return \<^verbatim>\<open>None\<close>, and the surface it leaves is the old one with the value
  recomputed, \<^verbatim>\<open>_needs_update\<close> set, \<^verbatim>\<open>_got_update\<close> cleared, the tweak
  time stamped and, on a press with a context, the press time stamped; every other
  field is as before.
\<close>

theorem match_changes_only_on_hit:
  "(\<not> cs_pattern s e \<longrightarrow> match ctx t s e = (Inr None, s))
   \<and> (snd (match ctx t s e) \<noteq> s \<longrightarrow> cs_pattern s e)
   \<and> (cs_pattern s e \<longrightarrow>
        fst (match ctx t s e) \<noteq> Inr None
        \<and> snd (match ctx t s e) =
           (let s4 = s\<lparr>cs_value := getValueFromEvent (cs_value_strategy s) e (cs_value s),
                       cs_needs_update := True, cs_got_update := False, cs_tweak := t\<rparr>
            in if cs_isPress s (cs_value s4) \<and> ctx \<noteq> None
               then s4\<lparr>cs_press := t\<rparr> else s4))"
  using match_miss [of s e ctx t] match_hit_state [of s e ctx t]
  by (auto simp: match_def Let_def getContext_def split: option.splits)

theorem match_changes_only_on_hit_witness:
  "\<not> cs_pattern example_knob (EventData 0x90 60 100)
   \<and> match None 1 example_knob (EventData 0x90 60 100) = (Inr None, example_knob)
   \<and> cs_pattern example_knob (EventData 0xBF 0x74 127)
   \<and> fst (match None 1 example_knob (EventData 0xBF 0x74 127)) \<noteq> Inr None
   \<and> cs_value (snd (match None 1 example_knob (EventData 0xBF 0x74 127))) = 1
   \<and> cs_needs_update (snd (match None 1 example_knob (EventData 0xBF 0x74 127)))
   \<and> cs_tweak (snd (match None 1 example_knob (EventData 0xBF 0x74 127))) = 1
   \<and> snd (match None 1 example_knob (EventData 0xBF 0x74 127)) \<noteq> example_knob"
proof -
  have a: "\<not> cs_pattern example_knob (EventData 0x90 60 100)"
    by (simp add: example_knob_def ControlSurface_init_def)
  have b: "cs_pattern example_knob (EventData 0xBF 0x74 127)"
    by (simp add: example_knob_def ControlSurface_init_def)
  have v: "getValueFromEvent (cs_value_strategy example_knob) (EventData 0xBF 0x74 127)
             (cs_value example_knob) = 1"
    by (simp add: example_knob_def ControlSurface_init_def example_strategy_def)
  have p: "\<not> cs_isPress example_knob 1"
    by (simp add: example_knob_def ControlSurface_init_def isPress_def)
  have n: "\<not> cs_needs_update example_knob"
    by (simp add: example_knob_def ControlSurface_init_def)
  from a match_changes_only_on_hit [of example_knob "EventData 0x90 60 100" None 1]
  have miss: "match None 1 example_knob (EventData 0x90 60 100) = (Inr None, example_knob)"
    by blast
  from b match_changes_only_on_hit [of example_knob "EventData 0xBF 0x74 127" None 1]
  have hit: "fst (match None 1 example_knob (EventData 0xBF 0x74 127)) \<noteq> Inr None"
    and st: "snd (match None 1 example_knob (EventData 0xBF 0x74 127)) =
       (let s4 = example_knob\<lparr>cs_value := getValueFromEvent (cs_value_strategy example_knob)
                                  (EventData 0xBF 0x74 127) (cs_value example_knob),
                     cs_needs_update := True, cs_got_update := False, cs_tweak := 1\<rparr>
        in if cs_isPress example_knob (cs_value s4) \<and> None \<noteq> (None :: DeviceContextManager option)
           then s4\<lparr>cs_press := 1\<rparr> else s4)"
    by blast+
  have st': "snd (match None 1 example_knob (EventData 0xBF 0x74 127)) =
       example_knob\<lparr>cs_value := 1, cs_needs_update := True, cs_got_update := False,
                    cs_tweak := 1\<rparr>"
    unfolding st v by (simp add: Let_def)
  have c1: "cs_value (snd (match None 1 example_knob (EventData 0xBF 0x74 127))) = 1"
    unfolding st' by simp
  have c2: "cs_needs_update (snd (match None 1 example_knob (EventData 0xBF 0x74 127)))"
    unfolding st' by simp
  have c3: "cs_tweak (snd (match None 1 example_knob (EventData 0xBF 0x74 127))) = 1"
    unfolding st' by simp
  have c4: "snd (match None 1 example_knob (EventData 0xBF 0x74 127)) \<noteq> example_knob"
    using c2 n by metis
  from a miss b hit c1 c2 c3 c4 show ?thesis by blast
qed

text \<open>
  C10. The press time of a fresh surface is 0.0. So when the first matching event of a
  fresh surface counts as a press and arrives at clock reading \<open>t\<close>, the event
  reports a double press exactly when \<open>t\<close> is at most the double-press time, although
  nothing was pressed before.
\<close>

theorem first_press_reports_double_press:
  assumes "p e" and "ip (getValueFromEvent vs e 0)"
  shows "cs_press (ControlSurface_init ip p vs co am cm vm) = 0
       \<and> reported_double_press
           (match (Some c) t (ControlSurface_init ip p vs co am cm vm) e)
           = Some (t \<le> settings c ''controls.double_press_time'')"
proof -
  let ?s = "ControlSurface_init ip p vs co am cm vm"
  have "cs_pattern ?s e"
       "cs_isPress ?s (getValueFromEvent (cs_value_strategy ?s) e (cs_value ?s))"
       "cs_press ?s = 0"
    using assms by (simp_all add: ControlSurface_init_def)
  then show ?thesis using match_hit_press [of ?s e c t] by simp
qed

theorem first_press_reports_double_press_witness:
  "cs_pattern example_button (EventData 0xBF 0x74 127)
   \<and> cs_isPress example_button
        (getValueFromEvent example_strategy (EventData 0xBF 0x74 127) 0)
   \<and> cs_press example_button = 0
   \<and> (1 / 4 :: real) \<le> example_settings ''controls.double_press_time''
   \<and> reported_double_press
        (match (Some (DeviceContextManager_init example_settings)) (1 / 4)
           example_button (EventData 0xBF 0x74 127)) = Some True"
proof -
  have a: "BasicPattern (Exact 0xBF) (Exact 0x74) Ellipsis (EventData 0xBF 0x74 127)"
    by simp
  have r: "reported_double_press
        (match (Some (DeviceContextManager_init example_settings)) (1 / 4)
           example_button (EventData 0xBF 0x74 127)) =
      Some (1 / 4 \<le> settings (DeviceContextManager_init example_settings)
                        ''controls.double_press_time'')"
    unfolding example_button_def
    using a first_press_reports_double_press
            [of "BasicPattern (Exact 0xBF) (Exact 0x74) Ellipsis" "EventData 0xBF 0x74 127"
                "\<lambda>v. True" example_strategy "(0, 0)" None None None
                "DeviceContextManager_init example_settings" "1 / 4"]
    by blast
  have s: "settings (DeviceContextManager_init example_settings)
             ''controls.double_press_time'' = 3 / 10"
    by (simp add: DeviceContextManager_init_def example_settings_def)
  have b: "cs_pattern example_button (EventData 0xBF 0x74 127)"
          "cs_isPress example_button
             (getValueFromEvent example_strategy (EventData 0xBF 0x74 127) 0)"
          "cs_press example_button = 0"
    by (simp_all add: example_button_def ControlSurface_init_def)
  have d: "(1 / 4 :: real) \<le> example_settings ''controls.double_press_time''"
    by (simp add: example_settings_def)
  have r': "reported_double_press
        (match (Some (DeviceContextManager_init example_settings)) (1 / 4)
           example_button (EventData 0xBF 0x74 127)) = Some True"
    unfolding r s by simp
  from b d r' show ?thesis by blast
qed

end
